theory Spec2Isabelle
  imports Complex_Main
begin

section \<open>Values, timestamps and errors\<close>

text \<open>
  Prices and quantities are decimals in the source (\<^verbatim>\<open>Price\<close>, \<^verbatim>\<open>Quantity\<close>); the model
  uses exact rationals, which agree with decimal arithmetic wherever the decimal result is
  exact. A \<^verbatim>\<open>timedelta\<close> is a number of microseconds. A \<^verbatim>\<open>datetime\<close> is its wall-clock
  reading in microseconds relative to 1970-01-01T00:00:00, together with its \<^verbatim>\<open>tzinfo\<close>
  (\<open>None\<close> for a naive datetime).
\<close>

type_synonym Price = rat
type_synonym Quantity = rat
type_synonym timedelta = int

datatype tzinfo = UTC | FixedOffset int

record datetime =
  micros :: int
  tzinfo :: "tzinfo option"

text \<open>
  Every raise of the modelled code is a value. \<open>ConditionFailed d\<close> is the exception of a
  failed \<^verbatim>\<open>Condition\<close> check whose description argument is \<open>d\<close>; \<open>RaisedNotImplemented m\<close>
  is what the statement \<^verbatim>\<open>raise NotImplemented(m)\<close> produces (at run time a
  \<^verbatim>\<open>TypeError\<close>, because \<^verbatim>\<open>NotImplemented\<close> is a constant and not an exception class);
  \<open>OverflowError\<close> is raised by datetime arithmetic that leaves the representable range and
  \<open>ValueError\<close> by \<^verbatim>\<open>min\<close> and \<^verbatim>\<open>max\<close> of an empty list.
\<close>

datatype error =
    ConditionFailed string
  | RaisedNotImplemented string
  | OverflowError
  | ValueError

text \<open>
  The body of a method that mutates its object ends in \<open>Inr s'\<close> (the object after the last
  statement) or in \<open>Inl (e, s')\<close> (the exception raised and the object as the raise left
  it). Whether the exception reaches the caller depends on how the method is declared:
  \<^verbatim>\<open>_amended\<close> and \<^verbatim>\<open>_filled\<close> are declared \<^verbatim>\<open>except *\<close> and pass it on; for
  \<^verbatim>\<open>add_price\<close> see below.
\<close>

type_synonym 's outcome = "(error \<times> 's) + 's"

definition Condition_true :: "bool \<Rightarrow> string \<Rightarrow> error option" where
  \<comment> \<open>Modelled from the spec: \<^verbatim>\<open>Condition\<close> (nautilus_trader.core.correctness) is not among
      the sources. A check that does not hold raises (section 7, validation failures).\<close>
  "Condition_true predicate description =
     (if predicate then None else Some (ConditionFailed description))"

definition Condition_positive :: "rat \<Rightarrow> string \<Rightarrow> error option" where
  \<comment> \<open>Modelled from the spec: see \<open>Condition_true\<close>; the docstring of
      \<^verbatim>\<open>MarketOrder.__init__\<close> gives the check as "positive (> 0)".\<close>
  "Condition_positive v param = (if 0 < v then None else Some (ConditionFailed param))"

definition is_datetime_utc :: "datetime \<Rightarrow> bool" where
  \<comment> \<open>Modelled from the spec: \<^verbatim>\<open>is_datetime_utc\<close> (nautilus_trader.core.datetime) is not
      among the sources. Section 4.6: input timestamps must be UTC-tagged.\<close>
  "is_datetime_utc ts = (tzinfo ts = Some UTC)"

definition datetime_min_micros :: int where
  \<comment> \<open>0001-01-01T00:00:00\<close>
  "datetime_min_micros = - 62135596800000000"

definition datetime_max_micros :: int where
  \<comment> \<open>9999-12-31T23:59:59.999999\<close>
  "datetime_max_micros = 253402300799999999"

definition datetime_sub :: "datetime \<Rightarrow> timedelta \<Rightarrow> error + datetime" where
  \<comment> \<open>\<^verbatim>\<open>ts - lookback\<close>: the tzinfo is kept; a result outside the range of datetime raises.\<close>
  "datetime_sub ts d =
     (let m = micros ts - d
      in if m < datetime_min_micros \<or> datetime_max_micros < m then Inl OverflowError
         else Inr (ts\<lparr>micros := m\<rparr>))"

definition datetime_less :: "datetime \<Rightarrow> datetime \<Rightarrow> bool" where
  \<comment> \<open>\<^verbatim>\<open>a < b\<close> on two datetimes with the same tzinfo compares the wall-clock readings.
      Wherever \<open>add_price\<close> compares, both sides carry the UTC tag.\<close>
  "datetime_less a b = (micros a < micros b)"

fun py_min :: "Price list \<Rightarrow> error + Price" where
  "py_min [] = Inl ValueError"
| "py_min (x # xs) = Inr (fold min xs x)"

fun py_max :: "Price list \<Rightarrow> error + Price" where
  "py_max [] = Inl ValueError"
| "py_max (x # xs) = Inr (fold max xs x)"

section \<open>WindowedMinMaxPrices\<close>

text \<open>A deque is a list, front (index 0) first; \<^verbatim>\<open>append\<close> and \<^verbatim>\<open>pop\<close> work at the back.\<close>

record WindowedMinMaxPrices =
  lookback :: timedelta
  min_price :: "Price option"
  max_price :: "Price option"
  min_prices :: "(datetime \<times> Price) list"
  max_prices :: "(datetime \<times> Price) list"

definition WindowedMinMaxPrices_init :: "timedelta \<Rightarrow> WindowedMinMaxPrices" where
  "WindowedMinMaxPrices_init lb =
     \<lparr>lookback = lb, min_price = None, max_price = None, min_prices = [], max_prices = []\<rparr>"

definition reset :: "WindowedMinMaxPrices \<Rightarrow> WindowedMinMaxPrices" where
  "reset w = w\<lparr>min_price := None, max_price := None, min_prices := [], max_prices := []\<rparr>"

fun expire_stale_prices_by_cutoff ::
  "(datetime \<times> Price) list \<Rightarrow> datetime \<Rightarrow> (datetime \<times> Price) list" where
  "expire_stale_prices_by_cutoff [] cutoff = []"
| "expire_stale_prices_by_cutoff (e # es) cutoff =
     (if datetime_less (fst e) cutoff then expire_stale_prices_by_cutoff es cutoff else e # es)"

text \<open>
  The two loops of \<^verbatim>\<open>_add_min_price\<close> and of \<^verbatim>\<open>_add_max_price\<close>: the first pops at the
  back (\<^verbatim>\<open>pop\<close>) while the last price is \<open>\<le>\<close> the new one, the second pops at the front
  (\<^verbatim>\<open>popleft\<close>) while the first price is \<open>\<le>\<close> the new one. Both methods have the same body
  in the source, on their own deque.
\<close>

function pop_while_last_le :: "(datetime \<times> Price) list \<Rightarrow> Price \<Rightarrow> (datetime \<times> Price) list" where
  "pop_while_last_le es price =
     (if es \<noteq> [] \<and> snd (last es) \<le> price then pop_while_last_le (butlast es) price else es)"
  by pat_completeness auto
termination
  by (relation "measure (\<lambda>(es, price). length es)") auto

declare pop_while_last_le.simps [simp del]

fun popleft_while_first_le :: "(datetime \<times> Price) list \<Rightarrow> Price \<Rightarrow> (datetime \<times> Price) list" where
  "popleft_while_first_le [] price = []"
| "popleft_while_first_le (e # es) price =
     (if snd e \<le> price then popleft_while_first_le es price else e # es)"

definition add_min_price :: "WindowedMinMaxPrices \<Rightarrow> datetime \<Rightarrow> Price \<Rightarrow> WindowedMinMaxPrices" where
  "add_min_price w ts price =
     w\<lparr>min_prices :=
         popleft_while_first_le (pop_while_last_le (min_prices w) price) price @ [(ts, price)]\<rparr>"

definition add_max_price :: "WindowedMinMaxPrices \<Rightarrow> datetime \<Rightarrow> Price \<Rightarrow> WindowedMinMaxPrices" where
  "add_max_price w ts price =
     w\<lparr>max_prices :=
         popleft_while_first_le (pop_while_last_le (max_prices w) price) price @ [(ts, price)]\<rparr>"

text \<open>The statements of \<^verbatim>\<open>add_price\<close>, in their order.\<close>

definition add_price_body ::
  "WindowedMinMaxPrices \<Rightarrow> datetime \<Rightarrow> Price \<Rightarrow> WindowedMinMaxPrices outcome" where
  "add_price_body w ts price =
     (case Condition_true (is_datetime_utc ts) ''`ts` is a tz-aware UTC'' of
        Some e \<Rightarrow> Inl (e, w)
      | None \<Rightarrow>
         (case datetime_sub ts (lookback w) of
            Inl e \<Rightarrow> Inl (e, w)
          | Inr cutoff \<Rightarrow>
             (let w1 = w\<lparr>min_prices := expire_stale_prices_by_cutoff (min_prices w) cutoff\<rparr>;
                  w2 = w1\<lparr>max_prices := expire_stale_prices_by_cutoff (max_prices w1) cutoff\<rparr>;
                  w3 = add_min_price w2 ts price;
                  w4 = add_max_price w3 ts price
              in case py_min (map snd (min_prices w4)) of
                   Inl e \<Rightarrow> Inl (e, w4)
                 | Inr lo \<Rightarrow>
                    (let w5 = w4\<lparr>min_price := Some lo\<rparr>
                     in case py_max (map snd (max_prices w5)) of
                          Inl e \<Rightarrow> Inl (e, w5)
                        | Inr hi \<Rightarrow> Inr (w5\<lparr>max_price := Some hi\<rparr>)))))"

text \<open>
  A call of \<^verbatim>\<open>add_price\<close>. The method is declared \<^verbatim>\<open>cpdef void add_price(...)\<close> with no
  \<^verbatim>\<open>except\<close> clause, unlike \<^verbatim>\<open>_amended\<close> and \<^verbatim>\<open>_filled\<close>, which are declared
  \<^verbatim>\<open>except *\<close>. In the Cython this code is written for (before 3.0) an exception raised
  in such a function cannot reach the caller: it is printed and discarded, and the call
  returns. A call therefore always returns; its result here is the exception that was
  printed, if any, and the instance after the call.
\<close>

definition add_price ::
  "WindowedMinMaxPrices \<Rightarrow> datetime \<Rightarrow> Price \<Rightarrow> error option \<times> WindowedMinMaxPrices" where
  "add_price w ts price =
     (case add_price_body w ts price of
        Inl (e, w') \<Rightarrow> (Some e, w')
      | Inr w' \<Rightarrow> (None, w'))"

text \<open>
  A run of \<^verbatim>\<open>add_price\<close> calls on one instance: what each call printed, and the instance
  after the last call. No call stops the run.
\<close>

fun add_prices ::
  "WindowedMinMaxPrices \<Rightarrow> (datetime \<times> Price) list \<Rightarrow> error option list \<times> WindowedMinMaxPrices" where
  "add_prices w [] = ([], w)"
| "add_prices w ((ts, price) # rest) =
     (case add_price w ts price of
        (printed, w') \<Rightarrow>
          (case add_prices w' rest of (printed_rest, w'') \<Rightarrow> (printed # printed_rest, w'')))"

definition utc_seconds :: "int \<Rightarrow> datetime" where
  \<comment> \<open>the UTC-tagged datetime \<open>s\<close> seconds after 1970-01-01T00:00:00\<close>
  "utc_seconds s = \<lparr>micros = s * 1000000, tzinfo = Some UTC\<rparr>"

section \<open>MarketOrder\<close>

text \<open>
  Identifiers (\<^verbatim>\<open>ClientOrderId\<close>, \<^verbatim>\<open>StrategyId\<close>, \<^verbatim>\<open>Symbol\<close>, \<^verbatim>\<open>UUID\<close>, ...) are their
  string values. The enums are declared outside the sources; the model has the members the
  source names and one constructor for every further member.
\<close>

datatype OrderSide = OrderSide_UNDEFINED | BUY | SELL

datatype OrderType = MARKET | OrderType_other nat

datatype TimeInForce = TimeInForce_UNDEFINED | GTC | IOC | FOK | TimeInForce_other nat

definition MARKET_ORDER_VALID_TIF :: "TimeInForce set" where
  "MARKET_ORDER_VALID_TIF = {GTC, IOC, FOK}"

record OrderInitialized =
  init_cl_ord_id :: string
  init_strategy_id :: string
  init_symbol :: string
  init_order_side :: OrderSide
  init_order_type :: OrderType
  init_quantity :: Quantity
  init_time_in_force :: TimeInForce
  init_event_id :: string
  init_event_timestamp :: datetime
  init_options :: "(string \<times> string) list"

record OrderFilled =
  ev_order_id :: string
  ev_position_id :: string
  ev_strategy_id :: string
  ev_execution_id :: string
  fill_qty :: Quantity
  fill_price :: Price
  ev_timestamp :: datetime

record OrderAmended =
  amended_cl_ord_id :: string
  amended_quantity :: Quantity
  amended_price :: Price

text \<open>
  The attributes of an order that \<^verbatim>\<open>MarketOrder.__init__\<close> passes on and that
  \<^verbatim>\<open>MarketOrder._filled\<close> assigns; \<open>order_id\<close> is the attribute \<^verbatim>\<open>id\<close>.
\<close>

record MarketOrder =
  cl_ord_id :: string
  strategy_id :: string
  symbol :: string
  side :: OrderSide
  order_type :: OrderType
  quantity :: Quantity
  time_in_force :: TimeInForce
  init_id :: string
  timestamp :: datetime
  order_id :: "string option"
  position_id :: "string option"
  execution_ids :: "string list"
  execution_id :: "string option"
  filled_qty :: Quantity
  filled_timestamp :: "datetime option"
  avg_price :: "Price option"

definition Quantity_new :: "rat \<Rightarrow> error + Quantity" where
  \<comment> \<open>Modelled from the spec: the class \<^verbatim>\<open>Quantity\<close> (nautilus_trader.model.objects) is not
      among the sources. Section 3: a Quantity is a non-negative decimal.\<close>
  "Quantity_new v = (if v < 0 then Inl (ConditionFailed ''quantity not negative'') else Inr v)"

definition Order_init :: "OrderInitialized \<Rightarrow> error + MarketOrder" where
  \<comment> \<open>Modelled from the spec: \<^verbatim>\<open>Order.__init__\<close> belongs to the base class
      (nautilus_trader.model.order.base), which is not among the sources. The order takes its
      attributes from the event; nothing is filled yet, so \<open>avg_price\<close> is undefined
      (section 3). The docstring of \<^verbatim>\<open>MarketOrder.__init__\<close> names two further failures,
      an undefined side and an undefined time in force, that its own body does not check.\<close>
  "Order_init event =
     (case Condition_true (init_order_side event \<noteq> OrderSide_UNDEFINED) ''order_side'' of
        Some e \<Rightarrow> Inl e
      | None \<Rightarrow>
         (case Condition_true (init_time_in_force event \<noteq> TimeInForce_UNDEFINED)
                 ''time_in_force'' of
            Some e \<Rightarrow> Inl e
          | None \<Rightarrow>
             Inr \<lparr>cl_ord_id = init_cl_ord_id event,
                  strategy_id = init_strategy_id event,
                  symbol = init_symbol event,
                  side = init_order_side event,
                  order_type = init_order_type event,
                  quantity = init_quantity event,
                  time_in_force = init_time_in_force event,
                  init_id = init_event_id event,
                  timestamp = init_event_timestamp event,
                  order_id = None,
                  position_id = None,
                  execution_ids = [],
                  execution_id = None,
                  filled_qty = 0,
                  filled_timestamp = None,
                  avg_price = None\<rparr>))"

text \<open>
  \<^verbatim>\<open>MarketOrder.__init__\<close>. The constructor of the base class, called last, is the
  parameter \<open>super_init\<close>.
\<close>

definition MarketOrder_init ::
  "(OrderInitialized \<Rightarrow> error + MarketOrder) \<Rightarrow> string \<Rightarrow> string \<Rightarrow> string \<Rightarrow> OrderSide \<Rightarrow>
   Quantity \<Rightarrow> TimeInForce \<Rightarrow> string \<Rightarrow> datetime \<Rightarrow> error + MarketOrder" where
  "MarketOrder_init super_init cl_ord_id' strategy_id' symbol' order_side quantity'
     time_in_force' init_id' timestamp' =
     (case Condition_positive quantity' ''quantity'' of
        Some e \<Rightarrow> Inl e
      | None \<Rightarrow>
         (case Condition_true (time_in_force' \<in> MARKET_ORDER_VALID_TIF)
                 ''time_in_force is GTC, IOC or FOK'' of
            Some e \<Rightarrow> Inl e
          | None \<Rightarrow>
             super_init
               \<lparr>init_cl_ord_id = cl_ord_id',
                init_strategy_id = strategy_id',
                init_symbol = symbol',
                init_order_side = order_side,
                init_order_type = MARKET,
                init_quantity = quantity',
                init_time_in_force = time_in_force',
                init_event_id = init_id',
                init_event_timestamp = timestamp',
                init_options = []\<rparr>))"

text \<open>\<^verbatim>\<open>MarketOrder._amended\<close>: the raise is its only statement.\<close>

definition amended :: "MarketOrder \<Rightarrow> OrderAmended \<Rightarrow> MarketOrder outcome" where
  "amended order event = Inl (RaisedNotImplemented ''Cannot amend a market order'', order)"

text \<open>
  \<^verbatim>\<open>MarketOrder._filled\<close>. The method \<^verbatim>\<open>_calculate_avg_price\<close> of the base class is the
  parameter \<open>calculate\<close>; it reads the order as the assignments before it have left it.
\<close>

definition filled ::
  "(MarketOrder \<Rightarrow> Price \<Rightarrow> Quantity \<Rightarrow> Price option) \<Rightarrow> MarketOrder \<Rightarrow> OrderFilled \<Rightarrow>
   MarketOrder outcome" where
  "filled calculate order event =
     (let o1 = order\<lparr>order_id := Some (ev_order_id event)\<rparr>;
          o2 = o1\<lparr>position_id := Some (ev_position_id event)\<rparr>;
          o3 = o2\<lparr>strategy_id := ev_strategy_id event\<rparr>;
          o4 = o3\<lparr>execution_ids := execution_ids o3 @ [ev_execution_id event]\<rparr>;
          o5 = o4\<lparr>execution_id := Some (ev_execution_id event)\<rparr>
      in case Quantity_new (filled_qty o5 + fill_qty event) of
           Inl e \<Rightarrow> Inl (e, o5)
         | Inr q \<Rightarrow>
            (let o6 = o5\<lparr>filled_qty := q\<rparr>;
                 o7 = o6\<lparr>filled_timestamp := Some (ev_timestamp event)\<rparr>
             in Inr (o7\<lparr>avg_price := calculate o7 (fill_price event) (fill_qty event)\<rparr>)))"

definition calculate_avg_price :: "MarketOrder \<Rightarrow> Price \<Rightarrow> Quantity \<Rightarrow> Price option" where
  \<comment> \<open>Modelled from the spec: \<^verbatim>\<open>Order._calculate_avg_price\<close> is a method of the base class
      (nautilus_trader.model.order.base), which is not among the sources. Section 4.2:
      \<open>avg_price\<close> is recomputed as the fill-quantity-weighted mean over all applied fills.
      \<^verbatim>\<open>_filled\<close> calls the method after it has added the fill to \<open>filled_qty\<close>, so the
      quantity of the earlier fills is \<open>filled_qty - fill_qty\<close>, and \<open>avg_price\<close> is still
      their mean.\<close>
  "calculate_avg_price order price qty =
     (case avg_price order of
        None \<Rightarrow> Some price
      | Some avg \<Rightarrow> Some ((avg * (filled_qty order - qty) + price * qty) / filled_qty order))"

section \<open>Notions used by the properties\<close>

text \<open>
  The deque that one \<^verbatim>\<open>add_price\<close> call leaves behind: expiry by the cutoff, the two loops,
  the append.
\<close>

definition inserted ::
  "(datetime \<times> Price) list \<Rightarrow> datetime \<Rightarrow> datetime \<Rightarrow> Price \<Rightarrow> (datetime \<times> Price) list" where
  "inserted es cutoff ts price =
     popleft_while_first_le
       (pop_while_last_le (expire_stale_prices_by_cutoff es cutoff) price) price @ [(ts, price)]"

definition strictly_decreasing :: "(datetime \<times> Price) list \<Rightarrow> bool" where
  "strictly_decreasing es = sorted_wrt (\<lambda>a b. snd b < snd a) es"

text \<open>
  The states an instance can be in: newly constructed, after a call of \<^verbatim>\<open>add_price\<close>,
  after a \<^verbatim>\<open>reset\<close>.
\<close>

inductive reachable :: "WindowedMinMaxPrices \<Rightarrow> bool" where
  constructed: "reachable (WindowedMinMaxPrices_init lb)"
| added: "reachable w \<Longrightarrow> add_price w ts price = (printed, w') \<Longrightarrow> reachable w'"
| was_reset: "reachable w \<Longrightarrow> reachable (reset w)"

text \<open>The scenario of section 8 of the spec: a lookback of 60 seconds and four adds.\<close>

definition lookback_60s :: timedelta where
  "lookback_60s = 60000000"

definition state_after_one_add :: WindowedMinMaxPrices where
  "state_after_one_add =
     \<lparr>lookback = lookback_60s, min_price = Some 100, max_price = Some 100,
      min_prices = [(utc_seconds 0, 100)],
      max_prices = [(utc_seconds 0, 100)]\<rparr>"

definition naive_datetime :: datetime where
  \<comment> \<open>\<^verbatim>\<open>datetime(1970, 1, 1)\<close>, without tzinfo\<close>
  "naive_datetime = \<lparr>micros = 0, tzinfo = None\<rparr>"

definition state_after_two_adds :: WindowedMinMaxPrices where
  "state_after_two_adds =
     \<lparr>lookback = lookback_60s, min_price = Some 98, max_price = Some 100,
      min_prices = [(utc_seconds 0, 100), (utc_seconds 20, 98)],
      max_prices = [(utc_seconds 0, 100), (utc_seconds 20, 98)]\<rparr>"

definition state_after_three_adds :: WindowedMinMaxPrices where
  "state_after_three_adds =
     \<lparr>lookback = lookback_60s, min_price = Some 102, max_price = Some 102,
      min_prices = [(utc_seconds 40, 102)],
      max_prices = [(utc_seconds 40, 102)]\<rparr>"

definition state_after_four_adds :: WindowedMinMaxPrices where
  "state_after_four_adds =
     \<lparr>lookback = lookback_60s, min_price = Some 99, max_price = Some 102,
      min_prices = [(utc_seconds 40, 102), (utc_seconds 70, 99)],
      max_prices = [(utc_seconds 40, 102), (utc_seconds 70, 99)]\<rparr>"

text \<open>
  The fill-quantity-weighted mean price of a list of fills, and what it means for an order
  to carry the totals of the fills applied to it so far.
\<close>

definition total_qty :: "OrderFilled list \<Rightarrow> Quantity" where
  "total_qty fills = sum_list (map fill_qty fills)"

definition weighted_mean :: "OrderFilled list \<Rightarrow> Price" where
  "weighted_mean fills =
     sum_list (map (\<lambda>f. fill_price f * fill_qty f) fills) / total_qty fills"

definition fills_applied :: "MarketOrder \<Rightarrow> OrderFilled list \<Rightarrow> bool" where
  "fills_applied order fills =
     (filled_qty order = total_qty fills \<and>
      avg_price order = (if fills = [] then None else Some (weighted_mean fills)))"

text \<open>The orders and fills of the scenarios of section 8 of the spec.\<close>

definition example_order :: "string \<Rightarrow> Quantity \<Rightarrow> MarketOrder" where
  "example_order cl qty =
     \<lparr>cl_ord_id = cl, strategy_id = ''S-001'', symbol = ''AUD/USD'', side = BUY,
      order_type = MARKET, quantity = qty, time_in_force = GTC, init_id = ''init-1'',
      timestamp = utc_seconds 0, order_id = None, position_id = None, execution_ids = [],
      execution_id = None, filled_qty = 0, filled_timestamp = None, avg_price = None\<rparr>"

definition example_fill :: "string \<Rightarrow> Quantity \<Rightarrow> Price \<Rightarrow> OrderFilled" where
  "example_fill exec qty price =
     \<lparr>ev_order_id = ''O-1'', ev_position_id = ''P-1'', ev_strategy_id = ''S-001'',
      ev_execution_id = exec, fill_qty = qty, fill_price = price,
      ev_timestamp = utc_seconds 1\<rparr>"

definition filled_order ::
  "string \<Rightarrow> Quantity \<Rightarrow> string list \<Rightarrow> Quantity \<Rightarrow> Price \<Rightarrow> MarketOrder" where
  \<comment> \<open>\<open>example_order\<close> after fills with the given execution ids, total and mean price\<close>
  "filled_order cl qty execs done avg =
     (example_order cl qty)
       \<lparr>order_id := Some ''O-1'', position_id := Some ''P-1'', execution_ids := execs,
        execution_id := Some (last execs), filled_qty := done,
        filled_timestamp := Some (utc_seconds 1), avg_price := Some avg\<rparr>"

section \<open>Properties of the window\<close>

subsection \<open>The loops as list functions\<close>

lemma pop_while_last_le_eq:
  "pop_while_last_le es price = rev (dropWhile (\<lambda>e. snd e \<le> price) (rev es))"
proof (induction es price rule: pop_while_last_le.induct)
  case (1 es price)
  show ?case
  proof (cases "es \<noteq> [] \<and> snd (last es) \<le> price")
    case True
    then obtain ys y where es: "es = ys @ [y]" and y: "snd y \<le> price"
      by (metis append_butlast_last_id)
    have "pop_while_last_le es price = pop_while_last_le (butlast es) price"
      using True by (subst pop_while_last_le.simps) simp
    also have "\<dots> = rev (dropWhile (\<lambda>e. snd e \<le> price) (rev (butlast es)))"
      using "1.IH" True by simp
    also have "\<dots> = rev (dropWhile (\<lambda>e. snd e \<le> price) (rev es))"
      using es y by simp
    finally show ?thesis .
  next
    case False
    then have "pop_while_last_le es price = es"
      by (subst pop_while_last_le.simps) auto
    moreover have "rev (dropWhile (\<lambda>e. snd e \<le> price) (rev es)) = es"
    proof (cases es rule: rev_cases)
      case Nil
      then show ?thesis by simp
    next
      case (snoc ys y)
      with False show ?thesis by simp
    qed
    ultimately show ?thesis by simp
  qed
qed

lemma popleft_while_first_le_eq:
  "popleft_while_first_le es price = dropWhile (\<lambda>e. snd e \<le> price) es"
  by (induction es) auto

lemma expire_stale_prices_by_cutoff_eq:
  "expire_stale_prices_by_cutoff es cutoff = dropWhile (\<lambda>e. datetime_less (fst e) cutoff) es"
  by (induction es) auto

lemma py_min_Min: "xs \<noteq> [] \<Longrightarrow> py_min xs = Inr (Min (set xs))"
proof (cases xs)
  case (Cons a list)
  then show ?thesis using Min.set_eq_fold [of a list] by simp
qed simp

lemma py_max_Max: "xs \<noteq> [] \<Longrightarrow> py_max xs = Inr (Max (set xs))"
proof (cases xs)
  case (Cons a list)
  then show ?thesis using Max.set_eq_fold [of a list] by simp
qed simp

subsection \<open>What \<open>add_price\<close> returns\<close>

lemma add_price_body_returns:
  assumes "is_datetime_utc ts" and "datetime_sub ts (lookback w) = Inr cutoff"
  shows "add_price_body w ts price =
           Inr (w\<lparr>min_price := Some (Min (snd ` set (inserted (min_prices w) cutoff ts price))),
                  max_price := Some (Max (snd ` set (inserted (max_prices w) cutoff ts price))),
                  min_prices := inserted (min_prices w) cutoff ts price,
                  max_prices := inserted (max_prices w) cutoff ts price\<rparr>)"
  using assms
  by (simp add: add_price_body_def Condition_true_def add_min_price_def add_max_price_def
      py_min_Min py_max_Max inserted_def Let_def)

lemma add_price_cases:
  "add_price w ts price =
     (if \<not> is_datetime_utc ts then (Some (ConditionFailed ''`ts` is a tz-aware UTC''), w)
      else case datetime_sub ts (lookback w) of
             Inl e \<Rightarrow> (Some e, w)
           | Inr cutoff \<Rightarrow>
               (None,
                w\<lparr>min_price := Some (Min (snd ` set (inserted (min_prices w) cutoff ts price))),
                  max_price := Some (Max (snd ` set (inserted (max_prices w) cutoff ts price))),
                  min_prices := inserted (min_prices w) cutoff ts price,
                  max_prices := inserted (max_prices w) cutoff ts price\<rparr>))"
proof (cases "is_datetime_utc ts")
  case False
  then show ?thesis by (simp add: add_price_def add_price_body_def Condition_true_def)
next
  case True
  show ?thesis
  proof (cases "datetime_sub ts (lookback w)")
    case (Inl e)
    with True show ?thesis by (simp add: add_price_def add_price_body_def Condition_true_def)
  next
    case (Inr cutoff)
    with True add_price_body_returns [OF True Inr] show ?thesis by (simp add: add_price_def)
  qed
qed

lemma add_price_printed_unchanged:
  "add_price w ts price = (Some e, w') \<Longrightarrow> w' = w"
  by (auto simp: add_price_cases split: if_splits sum.splits)

lemma add_price_not_utc:
  "\<not> is_datetime_utc ts \<Longrightarrow>
     add_price w ts price = (Some (ConditionFailed ''`ts` is a tz-aware UTC''), w)"
  by (simp add: add_price_cases)

lemmas window_eval =
  add_price_def add_price_body_def WindowedMinMaxPrices_init_def utc_seconds_def Condition_true_def
  is_datetime_utc_def datetime_sub_def datetime_min_micros_def datetime_max_micros_def
  datetime_less_def add_min_price_def add_max_price_def pop_while_last_le.simps
  lookback_60s_def state_after_one_add_def state_after_two_adds_def
  state_after_three_adds_def state_after_four_adds_def naive_datetime_def

subsection \<open>The order of the prices in the deques\<close>

lemma pop_while_last_le_decreasing:
  "strictly_decreasing es \<Longrightarrow>
     strictly_decreasing (pop_while_last_le es price) \<and>
     (\<forall>e \<in> set (pop_while_last_le es price). price < snd e)"
proof (induction es price rule: pop_while_last_le.induct)
  case (1 es price)
  show ?case
  proof (cases "es \<noteq> [] \<and> snd (last es) \<le> price")
    case True
    then obtain ys y where es: "es = ys @ [y]"
      by (metis append_butlast_last_id)
    have eq: "pop_while_last_le es price = pop_while_last_le (butlast es) price"
      using True by (subst pop_while_last_le.simps) simp
    have "strictly_decreasing (butlast es)"
      using "1.prems" es by (simp add: strictly_decreasing_def sorted_wrt_append)
    with "1.IH" True show ?thesis by (simp add: eq)
  next
    case False
    then have eq: "pop_while_last_le es price = es"
      by (subst pop_while_last_le.simps) auto
    show ?thesis
    proof (cases es rule: rev_cases)
      case Nil
      then show ?thesis using eq by (simp add: strictly_decreasing_def)
    next
      case (snoc ys y)
      with False have "price < snd y" by simp
      moreover have "\<forall>e \<in> set ys. snd y < snd e"
        using "1.prems" snoc by (simp add: strictly_decreasing_def sorted_wrt_append)
      ultimately have "\<forall>e \<in> set es. price < snd e"
        using snoc by auto
      with "1.prems" show ?thesis by (simp add: eq)
    qed
  qed
qed

lemma popleft_while_first_le_id:
  "\<forall>e \<in> set es. price < snd e \<Longrightarrow> popleft_while_first_le es price = es"
  by (cases es) auto

lemma expire_decreasing:
  "strictly_decreasing es \<Longrightarrow> strictly_decreasing (expire_stale_prices_by_cutoff es cutoff)"
  by (induction es) (auto simp: strictly_decreasing_def)

lemma inserted_decreasing:
  assumes "strictly_decreasing es"
  shows "strictly_decreasing (inserted es cutoff ts price)"
proof -
  let ?a = "expire_stale_prices_by_cutoff es cutoff"
  let ?b = "pop_while_last_le ?a price"
  have b: "strictly_decreasing ?b" "\<forall>e \<in> set ?b. price < snd e"
    using pop_while_last_le_decreasing [OF expire_decreasing [OF assms]] by auto
  have "inserted es cutoff ts price = ?b @ [(ts, price)]"
    by (simp add: inserted_def popleft_while_first_le_id [OF b(2)])
  with b show ?thesis
    by (simp add: strictly_decreasing_def sorted_wrt_append)
qed

lemma reachable_decreasing:
  "reachable w \<Longrightarrow> strictly_decreasing (min_prices w) \<and> strictly_decreasing (max_prices w)"
proof (induction rule: reachable.induct)
  case (constructed lb)
  then show ?case by (simp add: WindowedMinMaxPrices_init_def strictly_decreasing_def)
next
  case (added w ts price printed w')
  then show ?case
    by (auto simp: add_price_cases inserted_decreasing split: if_splits sum.splits)
next
  case (was_reset w)
  then show ?case by (simp add: reset_def strictly_decreasing_def)
qed

lemma Max_front:
  assumes "strictly_decreasing es" and "es \<noteq> []"
  shows "Max (snd ` set es) = snd (hd es)"
proof -
  from assms(2) obtain x xs where es: "es = x # xs" by (cases es) auto
  with assms(1) have "\<forall>y \<in> set xs. snd y < snd x"
    by (simp add: strictly_decreasing_def)
  then have "\<forall>v \<in> snd ` set es. v \<le> snd x"
    using es by auto
  moreover have "snd x \<in> snd ` set es" using es by simp
  ultimately have "Max (snd ` set es) = snd x"
    by (intro Max_eqI) auto
  then show ?thesis using es by simp
qed

text \<open>
  The min deque is kept like the max deque, so on a reachable instance the price just added,
  at the back, is the smallest one in it: \<open>min_price\<close> is always the last price added.
\<close>

lemma Min_back:
  assumes "strictly_decreasing (es @ [e])"
  shows "Min (snd ` set (es @ [e])) = snd e"
proof -
  have "\<forall>y \<in> set es. snd e < snd y"
    using assms by (simp add: strictly_decreasing_def sorted_wrt_append)
  then have "\<forall>v \<in> snd ` set (es @ [e]). snd e \<le> v"
    by auto
  then show ?thesis
    by (intro Min_eqI) auto
qed

lemma inserted_snoc:
  "\<exists>es'. inserted es cutoff ts price = es' @ [(ts, price)]"
  by (simp add: inserted_def)

lemma min_price_is_price_added:
  assumes "reachable w" and "add_price w ts price = (None, w')"
  shows "min_price w' = Some price"
proof -
  from assms(2) obtain cutoff where
    m: "min_price w' = Some (Min (snd ` set (inserted (min_prices w) cutoff ts price)))"
    by (auto simp: add_price_cases split: if_splits sum.splits)
  obtain es' where es': "inserted (min_prices w) cutoff ts price = es' @ [(ts, price)]"
    using inserted_snoc by blast
  have "strictly_decreasing (inserted (min_prices w) cutoff ts price)"
    using reachable_decreasing [OF assms(1)] by (simp add: inserted_decreasing)
  then have "Min (snd ` set (es' @ [(ts, price)])) = price"
    using Min_back [of es' "(ts, price)"] es' by simp
  then show ?thesis using m es' by simp
qed

text \<open>
  The max deque is kept as the spec describes it: on a reachable instance, after a call that
  printed nothing, \<open>max_price\<close> is the front element of the max deque.
\<close>

lemma max_price_is_front:
  assumes "reachable w" and "add_price w ts price = (None, w')"
  shows "max_price w' = Some (snd (hd (max_prices w')))"
proof -
  from assms(2) obtain cutoff where
    w': "max_price w' = Some (Max (snd ` set (inserted (max_prices w) cutoff ts price)))"
        "max_prices w' = inserted (max_prices w) cutoff ts price"
    by (auto simp: add_price_cases split: if_splits sum.splits)
  have "strictly_decreasing (max_prices w')"
    using reachable_decreasing [OF reachable.added [OF assms]] by simp
  moreover have "max_prices w' \<noteq> []"
    using w'(2) by (simp add: inserted_def)
  ultimately have "Max (snd ` set (max_prices w')) = snd (hd (max_prices w'))"
    by (rule Max_front)
  then show ?thesis using w' by simp
qed

subsection \<open>The window's extrema\<close>

text \<open>
  Claim C1 says that after every add, with non-decreasing UTC timestamps, \<open>min_price\<close> and
  \<open>max_price\<close> are the minimum and the maximum of the prices added at or after the cutoff,
  and that the adds (0 s, 100), (20 s, 98), (40 s, 102), (70 s, 99) with a lookback of 60 s
  end with \<open>min_price = 98\<close> and \<open>max_price = 102\<close>. The code, run on exactly these adds,
  raises nothing and ends with \<open>max_price = 102\<close> but \<open>min_price = 99\<close>: the cutoff of the
  last add is 10 s, the prices added at or after it are 98, 102 and 99, and their minimum is
  98. \<^verbatim>\<open>_add_min_price\<close> has the comparisons of \<^verbatim>\<open>_add_max_price\<close>, so the add of 102 has
  popped 98 from the min deque.
\<close>

theorem min_price_after_four_adds:
  "add_prices (WindowedMinMaxPrices_init lookback_60s)
     [(utc_seconds 0, 100), (utc_seconds 20, 98), (utc_seconds 40, 102), (utc_seconds 70, 99)]
     = ([None, None, None, None], state_after_four_adds) \<and>
   min_price state_after_four_adds = Some 99 \<and>
   max_price state_after_four_adds = Some 102 \<and>
   datetime_sub (utc_seconds 70) lookback_60s = Inr (utc_seconds 10) \<and>
   Min (set (map snd (filter (\<lambda>e. \<not> datetime_less (fst e) (utc_seconds 10))
          [(utc_seconds 0, 100), (utc_seconds 20, 98), (utc_seconds 40, 102),
           (utc_seconds 70, 99 :: Price)]))) = 98"
  by (simp add: window_eval)

text \<open>
  Claim C3 says that the min-sequence holds its prices in non-decreasing order from front to
  back, that an insert evicts exactly the tail entries with a price \<open>\<ge>\<close> the new one, and
  that no entry inside the window and smaller than the new price is evicted. In the code,
  after the adds (0 s, 100), (20 s, 98) the min deque holds the prices 100, 98 from front to
  back; the add of (40 s, 102), whose cutoff is -20 s, then evicts the entry (20 s, 98),
  which is inside the window and smaller than 102.
\<close>

theorem min_sequence_after_adds:
  "add_prices (WindowedMinMaxPrices_init lookback_60s) [(utc_seconds 0, 100), (utc_seconds 20, 98)]
     = ([None, None], state_after_two_adds) \<and>
   map snd (min_prices state_after_two_adds) = [100, 98] \<and>
   add_price state_after_two_adds (utc_seconds 40) 102 = (None, state_after_three_adds) \<and>
   datetime_sub (utc_seconds 40) (lookback state_after_two_adds) = Inr (utc_seconds (- 20)) \<and>
   \<not> datetime_less (utc_seconds 20) (utc_seconds (- 20)) \<and>
   (utc_seconds 20, 98) \<notin> set (min_prices state_after_three_adds)"
  by (simp add: window_eval)

text \<open>
  Claim C4 says that after every \<^verbatim>\<open>add_price\<close> call \<open>min_price\<close> is the front element of
  the min-sequence and \<open>max_price\<close> the front element of the max-sequence. In the code,
  after the adds (0 s, 100), (20 s, 98), which raise nothing, \<open>max_price\<close> is 100, the front
  of the max deque, but \<open>min_price\<close> is 98 while the front of the min deque is 100: the min
  deque is ordered like the max deque, so its minimum is at the back.
\<close>

theorem min_price_not_front_after_two_adds:
  "add_prices (WindowedMinMaxPrices_init lookback_60s) [(utc_seconds 0, 100), (utc_seconds 20, 98)]
     = ([None, None], state_after_two_adds) \<and>
   min_price state_after_two_adds = Some 98 \<and>
   snd (hd (min_prices state_after_two_adds)) = 100 \<and>
   max_price state_after_two_adds = Some 100 \<and>
   snd (hd (max_prices state_after_two_adds)) = 100"
  by (simp add: window_eval)

subsection \<open>The timestamp check and \<open>reset\<close>\<close>

text \<open>
  Claim C7 says that for every timestamp that is not tz-aware UTC \<^verbatim>\<open>add_price\<close> fails with
  \<^verbatim>\<open>TimestampNotUtc\<close> and leaves the instance unchanged, and that for a tz-aware UTC
  timestamp it does not raise that error. In the code, a call with the naive timestamp
  \<^verbatim>\<open>datetime(1970, 1, 1)\<close> on a new instance does leave the instance unchanged, but it does
  not fail: the exception of the check is raised in the body, printed and discarded, and
  the call returns; a run goes on with its next add.
\<close>

theorem add_price_naive_timestamp_returns:
  "\<not> is_datetime_utc naive_datetime \<and>
   add_price_body (WindowedMinMaxPrices_init lookback_60s) naive_datetime 5
     = Inl (ConditionFailed ''`ts` is a tz-aware UTC'', WindowedMinMaxPrices_init lookback_60s) \<and>
   add_price (WindowedMinMaxPrices_init lookback_60s) naive_datetime 5
     = (Some (ConditionFailed ''`ts` is a tz-aware UTC''), WindowedMinMaxPrices_init lookback_60s) \<and>
   add_prices (WindowedMinMaxPrices_init lookback_60s) [(naive_datetime, 5), (utc_seconds 0, 100)]
     = ([Some (ConditionFailed ''`ts` is a tz-aware UTC''), None], state_after_one_add)"
  by (simp add: window_eval)

text \<open>
  Claim C10: \<^verbatim>\<open>reset\<close> turns an instance in any state into the newly constructed instance
  with the same lookback: \<open>min_price\<close> and \<open>max_price\<close> are \<open>None\<close>, both deques are empty,
  and every run of \<^verbatim>\<open>add_price\<close> calls gives on it what it gives on a new instance.
\<close>

theorem reset_like_new:
  "reset w = WindowedMinMaxPrices_init (lookback w) \<and>
   min_price (reset w) = None \<and> max_price (reset w) = None \<and>
   min_prices (reset w) = [] \<and> max_prices (reset w) = [] \<and>
   (\<forall>adds. add_prices (reset w) adds = add_prices (WindowedMinMaxPrices_init (lookback w)) adds)"
proof -
  have "reset w = WindowedMinMaxPrices_init (lookback w)"
    by (cases w) (simp add: reset_def WindowedMinMaxPrices_init_def)
  then show ?thesis by (simp add: WindowedMinMaxPrices_init_def)
qed

section \<open>Properties of market orders\<close>

lemmas order_eval =
  filled_def calculate_avg_price_def Quantity_new_def example_order_def example_fill_def
  filled_order_def utc_seconds_def Let_def

lemma total_qty_nonneg: "\<forall>f \<in> set fills. 0 < fill_qty f \<Longrightarrow> 0 \<le> total_qty fills"
  by (induction fills) (auto simp: total_qty_def)

lemma total_qty_pos:
  "fills \<noteq> [] \<Longrightarrow> \<forall>f \<in> set fills. 0 < fill_qty f \<Longrightarrow> 0 < total_qty fills"
  using total_qty_nonneg by (cases fills) (fastforce simp: total_qty_def)+

lemma total_qty_snoc: "total_qty (fills @ [f]) = total_qty fills + fill_qty f"
  by (simp add: total_qty_def)

lemma filled_returns:
  assumes "0 \<le> filled_qty order + fill_qty event"
  shows "filled calculate order event =
           Inr (order\<lparr>order_id := Some (ev_order_id event),
                      position_id := Some (ev_position_id event),
                      strategy_id := ev_strategy_id event,
                      execution_ids := execution_ids order @ [ev_execution_id event],
                      execution_id := Some (ev_execution_id event),
                      filled_qty := filled_qty order + fill_qty event,
                      filled_timestamp := Some (ev_timestamp event),
                      avg_price :=
                        calculate
                          (order\<lparr>order_id := Some (ev_order_id event),
                                 position_id := Some (ev_position_id event),
                                 strategy_id := ev_strategy_id event,
                                 execution_ids := execution_ids order @ [ev_execution_id event],
                                 execution_id := Some (ev_execution_id event),
                                 filled_qty := filled_qty order + fill_qty event,
                                 filled_timestamp := Some (ev_timestamp event)\<rparr>)
                          (fill_price event) (fill_qty event)\<rparr>)"
  using assms by (simp add: filled_def Quantity_new_def Let_def)

lemma weighted_mean_step:
  assumes "0 < total_qty fills" and "0 < fill_qty event"
  shows "(weighted_mean fills * (total_qty fills + fill_qty event - fill_qty event)
            + fill_price event * fill_qty event) / (total_qty fills + fill_qty event)
         = weighted_mean (fills @ [event])"
  using assms by (simp add: weighted_mean_def total_qty_snoc)

lemma weighted_mean_single: "fill_qty event \<noteq> 0 \<Longrightarrow> weighted_mean [event] = fill_price event"
  by (simp add: weighted_mean_def total_qty_def)

subsection \<open>Fills\<close>

text \<open>
  Claim C2 says that applying an \<^verbatim>\<open>OrderFilled\<close> event whose \<open>execution_id\<close> the order
  already holds is a no-op that returns success. As stated it fails on \<^verbatim>\<open>_filled\<close>: the
  fill with execution id X and quantity 30, applied to a new order, gives the execution ids
  [X] and \<open>filled_qty = 30\<close>; applied once more, it returns normally with the execution ids
  [X, X] and \<open>filled_qty = 60\<close>.
\<close>

theorem duplicate_fill_counterexample:
  "filled calculate_avg_price (example_order ''D'' 100) (example_fill ''X'' 30 10)
     = Inr (filled_order ''D'' 100 [''X''] 30 10) \<and>
   ev_execution_id (example_fill ''X'' 30 10)
     \<in> set (execution_ids (filled_order ''D'' 100 [''X''] 30 10)) \<and>
   filled calculate_avg_price (filled_order ''D'' 100 [''X''] 30 10) (example_fill ''X'' 30 10)
     = Inr (filled_order ''D'' 100 [''X'', ''X''] 60 10) \<and>
   execution_ids (filled_order ''D'' 100 [''X'', ''X''] 60 10) = [''X'', ''X''] \<and>
   execution_ids (filled_order ''D'' 100 [''X''] 30 10) = [''X''] \<and>
   filled_qty (filled_order ''D'' 100 [''X'', ''X''] 60 10) = 60 \<and>
   filled_qty (filled_order ''D'' 100 [''X''] 30 10) = 30"
  by (simp add: order_eval)

text \<open>
  Claim C2 as amended: for every order and every \<^verbatim>\<open>OrderFilled\<close> event whose
  \<open>execution_id\<close> is already among the order's \<open>execution_ids\<close>, \<^verbatim>\<open>_filled\<close> applies the
  fill again and returns success, provided \<open>filled_qty + fill_qty\<close> is a valid quantity
  (not negative): the \<open>execution_id\<close> is appended once more and \<open>filled_qty\<close> grows by
  \<open>fill_qty\<close>, so the order is not what it was. This holds whatever
  \<^verbatim>\<open>_calculate_avg_price\<close> computes.
\<close>

theorem filled_applies_duplicate:
  assumes "ev_execution_id event \<in> set (execution_ids order)"
    and "0 \<le> filled_qty order + fill_qty event"
  shows "\<exists>order'. filled calculate order event = Inr order' \<and>
           execution_ids order' = execution_ids order @ [ev_execution_id event] \<and>
           filled_qty order' = filled_qty order + fill_qty event \<and>
           order' \<noteq> order"
proof -
  from filled_returns [OF assms(2), of calculate] obtain order' where
    r: "filled calculate order event = Inr order'"
    and e: "execution_ids order' = execution_ids order @ [ev_execution_id event]"
    and q: "filled_qty order' = filled_qty order + fill_qty event"
    by simp
  from e have "order' \<noteq> order" by auto
  with r e q show ?thesis by blast
qed

text \<open>The amended claim C2 at the second application of the fill X.\<close>

theorem filled_applies_duplicate_witness:
  "ev_execution_id (example_fill ''X'' 30 10)
     \<in> set (execution_ids (filled_order ''D'' 100 [''X''] 30 10)) \<and>
   0 \<le> filled_qty (filled_order ''D'' 100 [''X''] 30 10) + fill_qty (example_fill ''X'' 30 10) \<and>
   (\<exists>order'. filled calculate_avg_price (filled_order ''D'' 100 [''X''] 30 10)
                (example_fill ''X'' 30 10) = Inr order' \<and>
      execution_ids order' = [''X'', ''X''] \<and> filled_qty order' = 60)"
proof -
  have h1: "ev_execution_id (example_fill ''X'' 30 10)
     \<in> set (execution_ids (filled_order ''D'' 100 [''X''] 30 10))"
    by (simp add: order_eval)
  have h2: "0 \<le> filled_qty (filled_order ''D'' 100 [''X''] 30 10)
                + fill_qty (example_fill ''X'' 30 10)"
    by (simp add: order_eval)
  from filled_applies_duplicate [OF h1 h2, of calculate_avg_price] h1 h2 show ?thesis
    by (simp add: order_eval)
qed

text \<open>
  Claim C8: a fill appends its \<open>execution_id\<close>, increments \<open>filled_qty\<close> by exactly
  \<open>fill_qty\<close> and sets \<open>avg_price\<close> to the fill-quantity-weighted mean over all applied
  fills. Here \<open>fills\<close> are the fills applied to the order so far (none for a new order), each
  of a positive quantity, and the order carries their total and their mean; the event has a
  positive quantity, and its \<open>execution_id\<close> may be new or not. The mean is that of
  \<open>calculate_avg_price\<close>, over exact rationals.
\<close>

theorem filled_applies_fill:
  assumes "fills_applied order fills"
    and "\<forall>f \<in> set fills. 0 < fill_qty f"
    and "0 < fill_qty event"
  shows "\<exists>order'. filled calculate_avg_price order event = Inr order' \<and>
           execution_ids order' = execution_ids order @ [ev_execution_id event] \<and>
           filled_qty order' = filled_qty order + fill_qty event \<and>
           avg_price order' = Some (weighted_mean (fills @ [event])) \<and>
           fills_applied order' (fills @ [event])"
proof -
  have q: "filled_qty order = total_qty fills"
    using assms(1) by (simp add: fills_applied_def)
  have nonneg: "0 \<le> filled_qty order + fill_qty event"
    using q total_qty_nonneg [OF assms(2)] assms(3) by simp
  have mean: "calculate_avg_price
                (order\<lparr>order_id := a, position_id := b, strategy_id := c, execution_ids := d,
                       execution_id := e, filled_qty := filled_qty order + fill_qty event,
                       filled_timestamp := g\<rparr>)
                (fill_price event) (fill_qty event)
              = Some (weighted_mean (fills @ [event]))" for a b c d e g
  proof (cases "fills = []")
    case True
    then have "avg_price order = None"
      using assms(1) by (simp add: fills_applied_def)
    then show ?thesis
      using True assms(3) by (simp add: calculate_avg_price_def weighted_mean_single)
  next
    case False
    then have avg: "avg_price order = Some (weighted_mean fills)"
      using assms(1) by (simp add: fills_applied_def)
    have "0 < total_qty fills"
      using total_qty_pos [OF False assms(2)] .
    from weighted_mean_step [OF this assms(3)] show ?thesis
      using avg q by (simp add: calculate_avg_price_def)
  qed
  show ?thesis
    using filled_returns [OF nonneg, of calculate_avg_price] mean q
    by (simp add: fills_applied_def total_qty_snoc)
qed

text \<open>
  Claim C8 at the scenario of the spec: an order for 100 filled with 40 at 10.00 and then 60
  at 10.50 has \<open>avg_price = 10.30\<close>.
\<close>

theorem filled_applies_fill_witness:
  "fills_applied (filled_order ''B'' 100 [''E1''] 40 10) [example_fill ''E1'' 40 10] \<and>
   0 < fill_qty (example_fill ''E1'' 40 10) \<and>
   0 < fill_qty (example_fill ''E2'' 60 (21 / 2)) \<and>
   filled calculate_avg_price (filled_order ''B'' 100 [''E1''] 40 10)
       (example_fill ''E2'' 60 (21 / 2))
     = Inr (filled_order ''B'' 100 [''E1'', ''E2''] 100 (103 / 10)) \<and>
   weighted_mean [example_fill ''E1'' 40 10, example_fill ''E2'' 60 (21 / 2)] = 103 / 10"
proof -
  have h1: "fills_applied (filled_order ''B'' 100 [''E1''] 40 10) [example_fill ''E1'' 40 10]"
    by (simp add: fills_applied_def weighted_mean_def total_qty_def order_eval)
  have h2: "\<forall>f \<in> set [example_fill ''E1'' 40 10]. 0 < fill_qty f"
    by (simp add: example_fill_def)
  have h3: "0 < fill_qty (example_fill ''E2'' 60 (21 / 2))"
    by (simp add: example_fill_def)
  have r: "filled calculate_avg_price (filled_order ''B'' 100 [''E1''] 40 10)
       (example_fill ''E2'' 60 (21 / 2))
     = Inr (filled_order ''B'' 100 [''E1'', ''E2''] 100 (103 / 10))"
    by (simp add: order_eval)
  from filled_applies_fill [OF h1 h2 h3]
  have "avg_price (filled_order ''B'' 100 [''E1'', ''E2''] 100 (103 / 10))
          = Some (weighted_mean ([example_fill ''E1'' 40 10] @ [example_fill ''E2'' 60 (21 / 2)]))"
    by (simp add: r)
  then have "weighted_mean [example_fill ''E1'' 40 10, example_fill ''E2'' 60 (21 / 2)] = 103 / 10"
    by (simp add: filled_order_def)
  with h1 h2 h3 r show ?thesis by simp
qed

subsection \<open>Amending and constructing\<close>

text \<open>
  Claim C5: for every market order in any state, applying an \<^verbatim>\<open>OrderAmended\<close> event fails,
  with the exception of the statement \<^verbatim>\<open>raise NotImplemented("Cannot amend a market order")\<close>
  (the spec's \<^verbatim>\<open>AmendNotSupported\<close>), and leaves the order entirely as it was.
\<close>

theorem amended_raises:
  "amended order event = Inl (RaisedNotImplemented ''Cannot amend a market order'', order)"
  by (simp add: amended_def)

text \<open>
  Claim C6: the construction of a \<^verbatim>\<open>MarketOrder\<close> succeeds only when its time in force is
  one of GTC, IOC and FOK; for every other time in force it fails and no order is created.
  This holds whatever the constructor of the base class does.
\<close>

theorem MarketOrder_init_time_in_force:
  "(MarketOrder_init super_init cl sid smb sd qty tif iid ts = Inr order
      \<longrightarrow> tif \<in> {GTC, IOC, FOK}) \<and>
   (tif \<notin> {GTC, IOC, FOK}
      \<longrightarrow> (\<exists>e. MarketOrder_init super_init cl sid smb sd qty tif iid ts = Inl e))"
  by (auto simp: MarketOrder_init_def Condition_true_def Condition_positive_def
      MARKET_ORDER_VALID_TIF_def split: option.splits if_splits)

text \<open>Claim C6 at a GTC order, which is created, and at another time in force.\<close>

theorem MarketOrder_init_time_in_force_witness:
  "MarketOrder_init Order_init ''A'' ''S-001'' ''AUD/USD'' BUY 100 GTC ''init-1'' (utc_seconds 0)
     = Inr (example_order ''A'' 100) \<and>
   GTC \<in> {GTC, IOC, FOK} \<and>
   TimeInForce_other 1 \<notin> {GTC, IOC, FOK} \<and>
   (\<exists>e. MarketOrder_init Order_init ''A'' ''S-001'' ''AUD/USD'' BUY 100 (TimeInForce_other 1)
           ''init-1'' (utc_seconds 0) = Inl e)"
proof -
  have ok: "MarketOrder_init Order_init ''A'' ''S-001'' ''AUD/USD'' BUY 100 GTC ''init-1''
              (utc_seconds 0) = Inr (example_order ''A'' 100)"
    by (simp add: MarketOrder_init_def Order_init_def Condition_true_def Condition_positive_def
        MARKET_ORDER_VALID_TIF_def example_order_def)
  have other: "TimeInForce_other 1 \<notin> {GTC, IOC, FOK}" by simp
  show ?thesis
    using MarketOrder_init_time_in_force
            [of Order_init "''A''" "''S-001''" "''AUD/USD''" BUY 100 GTC "''init-1''"
               "utc_seconds 0" "example_order ''A'' 100"]
          MarketOrder_init_time_in_force
            [of Order_init "''A''" "''S-001''" "''AUD/USD''" BUY 100 "TimeInForce_other 1"
               "''init-1''" "utc_seconds 0" "example_order ''A'' 100"]
          ok other
    by blast
qed

text \<open>
  Claim C9: the construction of a \<^verbatim>\<open>MarketOrder\<close> with a quantity of zero fails at the check
  that the quantity is positive, although zero is a valid \<^verbatim>\<open>Quantity\<close>.
\<close>

theorem MarketOrder_init_zero_quantity:
  "Quantity_new 0 = Inr 0 \<and>
   MarketOrder_init super_init cl sid smb sd 0 tif iid ts = Inl (ConditionFailed ''quantity'')"
  by (simp add: Quantity_new_def MarketOrder_init_def Condition_positive_def)

end
